theory Spec2Isabelle
  imports Complex_Main
begin

section \<open>Data model\<close>

text \<open>
  The pages \<^verbatim>\<open>src/pages/TrackBus.tsx\<close> and \<^verbatim>\<open>src/pages/StudentDashboard.tsx\<close>
  are embedded as functions on explicit state. Coordinates are the reals their doubles
  denote. The distance is given twice: \<^verbatim>\<open>calculateDistance\<close> in exact arithmetic,
  and \<^verbatim>\<open>calculateDistance_double\<close> as the engine computes it, with rounding and
  NaN. A \<^verbatim>\<open>timestamp\<close> is the instant its ISO string denotes.
  The interfaces \<^verbatim>\<open>BusLocation\<close> and \<^verbatim>\<open>Stop\<close> share the fields
  \<^verbatim>\<open>latitude\<close> and \<^verbatim>\<open>longitude\<close>.
\<close>

record Coordinates =
  latitude :: real
  longitude :: real

record BusLocation = Coordinates +
  timestamp :: nat

record Stop = Coordinates +
  stop_id :: string
  name :: string
  stop_order :: int

text \<open>The calls of the notification library: \<^verbatim>\<open>toast.info(msg, {duration})\<close>,
  \<^verbatim>\<open>toast.error(msg)\<close>, \<^verbatim>\<open>toast.success(msg)\<close>.\<close>

datatype toast = ToastInfo string nat | ToastError string | ToastSuccess string

text \<open>The calls made on the map widget, in the order they are made. A position is the
  pair \<^verbatim>\<open>[longitude, latitude]\<close>.\<close>

datatype map_op =
    NewBusMarker "real \<times> real"
  | SetLngLat "real \<times> real"
  | FlyTo "real \<times> real" nat
  | NewStopMarker "real \<times> real" string

text \<open>The requests a page sends to the backend.\<close>

datatype request =
    Select_bus_route string
  | Select_stops string
  | Subscribe_bus_locations string
  | Select_latest_location string
  | Remove_channel
  | Delete_student_buses string
  | Insert_student_buses string string

record Page =
  toasts :: "toast list"
  requests :: "request list"

text \<open>
  The state of one \<^verbatim>\<open>TrackBus\<close> component: its \<^verbatim>\<open>useState\<close> cells
  \<^verbatim>\<open>busLocation\<close> and \<^verbatim>\<open>stops\<close>, its refs \<^verbatim>\<open>map.current\<close> (here
  only whether a map exists) and \<^verbatim>\<open>busMarker.current\<close> (the marker's position), and
  the realtime channel. The callback registered on the channel closes over the
  \<^verbatim>\<open>stops\<close> binding of the render that subscribed, so the channel carries that list.
  \<^verbatim>\<open>busLocation_changed\<close> says that \<^verbatim>\<open>setBusLocation\<close> was called since the
  last committed render, so that the next render runs the effect on
  \<^verbatim>\<open>[busLocation]\<close>. \<^verbatim>\<open>proximity_checks\<close> records the arguments of the calls of
  \<^verbatim>\<open>checkProximityToStops\<close>.
\<close>

record TrackBus = Page +
  busLocation :: "BusLocation option"
  busLocation_changed :: bool
  stops :: "Stop list"
  map_current :: bool
  busMarker :: "(real \<times> real) option"
  map_ops :: "map_op list"
  channel :: "Stop list option"
  proximity_checks :: "BusLocation list"

definition TrackBus_init :: TrackBus where
  "TrackBus_init =
     \<lparr>toasts = [], requests = [], busLocation = None, busLocation_changed = False,
      stops = [], map_current = False,
      busMarker = None, map_ops = [], channel = None, proximity_checks = []\<rparr>"

section \<open>The distance calculator\<close>

text \<open>\<^verbatim>\<open>Math.atan2(y, x)\<close>: the angle of the point \<open>(x, y)\<close>, in \<open>(-\<pi>, \<pi>]\<close>.\<close>

definition atan2 :: "real \<Rightarrow> real \<Rightarrow> real" where
  "atan2 y x =
     (if 0 < x then arctan (y / x)
      else if x < 0 then (if 0 \<le> y then arctan (y / x) + pi else arctan (y / x) - pi)
      else if 0 < y then pi / 2
      else if y < 0 then - (pi / 2)
      else 0)"

text \<open>
  \<^verbatim>\<open>calculateDistance\<close> in exact arithmetic: every operation of the source with its
  exact result. It is the value of \<open>calculateDistance_double\<close> below for the arithmetic
  that does not round (lemma \<open>calculateDistance_double_exact\<close>); what the doubles of the
  engine add, rounding and NaN, is in \<open>calculateDistance_double\<close>.
\<close>

definition calculateDistance :: "real \<Rightarrow> real \<Rightarrow> real \<Rightarrow> real \<Rightarrow> real" where
  "calculateDistance lat1 lon1 lat2 lon2 =
     (let R = 6371;
          dLat = (lat2 - lat1) * pi / 180;
          dLon = (lon2 - lon1) * pi / 180;
          a = sin (dLat / 2) * sin (dLat / 2) +
              cos (lat1 * pi / 180) * cos (lat2 * pi / 180) *
              sin (dLon / 2) * sin (dLon / 2);
          c = 2 * atan2 (sqrt a) (sqrt (1 - a))
      in R * c)"

text \<open>The value of the local \<^verbatim>\<open>a\<close> of \<^verbatim>\<open>calculateDistance\<close>, named for the proofs.\<close>

definition haversine_a :: "real \<Rightarrow> real \<Rightarrow> real \<Rightarrow> real \<Rightarrow> real" where
  "haversine_a lat1 lon1 lat2 lon2 =
     sin ((lat2 - lat1) * pi / 180 / 2) * sin ((lat2 - lat1) * pi / 180 / 2) +
     cos (lat1 * pi / 180) * cos (lat2 * pi / 180) *
     sin ((lon2 - lon1) * pi / 180 / 2) * sin ((lon2 - lon1) * pi / 180 / 2)"

text \<open>
  The reference definition, following the specification's words: the haversine \<open>h\<close> of
  the half angular differences, and the distance \<open>2 * 6371 * asin (sqrt h)\<close>.
\<close>

definition haversine_ref :: "real \<Rightarrow> real \<Rightarrow> real \<Rightarrow> real \<Rightarrow> real" where
  "haversine_ref lat1 lon1 lat2 lon2 =
     (let h = (sin (((lat2 - lat1) / 2) * (pi / 180)))\<^sup>2 +
              cos (lat1 * (pi / 180)) * cos (lat2 * (pi / 180)) *
              (sin (((lon2 - lon1) / 2) * (pi / 180)))\<^sup>2
      in 2 * 6371 * arcsin (sqrt h))"

text \<open>
  The function as the engine computes it. A number is an IEEE double: every operation
  rounds its exact result to a double, \<^verbatim>\<open>Math.sin\<close>, \<^verbatim>\<open>Math.cos\<close> and
  \<^verbatim>\<open>Math.atan2\<close> are the engine's approximations, \<^verbatim>\<open>Math.PI\<close> is a double, and
  \<^verbatim>\<open>Math.sqrt\<close> of a negative number is NaN, which every later operation hands on.
  The engine's arithmetic is a parameter; \<open>exact_arithmetic\<close> is the one that does not
  round. For finite coordinates the operations before the square roots give finite
  doubles, so the value of the local \<^verbatim>\<open>a\<close> is a real.
\<close>

datatype number = Num real | NaN

record arithmetic =
  rnd :: "real \<Rightarrow> real"
  Math_PI :: real
  Math_sin :: "real \<Rightarrow> real"
  Math_cos :: "real \<Rightarrow> real"
  Math_atan2 :: "real \<Rightarrow> real \<Rightarrow> real"

definition exact_arithmetic :: arithmetic where
  "exact_arithmetic =
     \<lparr>rnd = (\<lambda>x. x), Math_PI = pi, Math_sin = sin, Math_cos = cos, Math_atan2 = atan2\<rparr>"

fun Math_sqrt :: "arithmetic \<Rightarrow> number \<Rightarrow> number" where
  "Math_sqrt ar (Num x) = (if x < 0 then NaN else Num (rnd ar (sqrt x)))"
| "Math_sqrt ar NaN = NaN"

fun atan2_number :: "arithmetic \<Rightarrow> number \<Rightarrow> number \<Rightarrow> number" where
  "atan2_number ar (Num y) (Num x) = Num (Math_atan2 ar y x)"
| "atan2_number ar y x = NaN"

fun times_number :: "arithmetic \<Rightarrow> number \<Rightarrow> number \<Rightarrow> number" where
  "times_number ar (Num x) (Num y) = Num (rnd ar (x * y))"
| "times_number ar x y = NaN"

fun minus_number :: "arithmetic \<Rightarrow> number \<Rightarrow> number \<Rightarrow> number" where
  "minus_number ar (Num x) (Num y) = Num (rnd ar (x - y))"
| "minus_number ar x y = NaN"

definition a_double :: "arithmetic \<Rightarrow> real \<Rightarrow> real \<Rightarrow> real \<Rightarrow> real \<Rightarrow> real" where
  "a_double ar lat1 lon1 lat2 lon2 =
     (let dLat = rnd ar (rnd ar (rnd ar (lat2 - lat1) * Math_PI ar) / 180);
          dLon = rnd ar (rnd ar (rnd ar (lon2 - lon1) * Math_PI ar) / 180)
      in rnd ar
           (rnd ar (Math_sin ar (rnd ar (dLat / 2)) * Math_sin ar (rnd ar (dLat / 2))) +
            rnd ar (rnd ar (rnd ar
              (Math_cos ar (rnd ar (rnd ar (lat1 * Math_PI ar) / 180)) *
               Math_cos ar (rnd ar (rnd ar (lat2 * Math_PI ar) / 180))) *
              Math_sin ar (rnd ar (dLon / 2))) *
              Math_sin ar (rnd ar (dLon / 2)))))"

text \<open>The last two statements of the function, from the computed \<^verbatim>\<open>a\<close>.\<close>

definition distance_from_a :: "arithmetic \<Rightarrow> number \<Rightarrow> number" where
  "distance_from_a ar a =
     (let R = Num 6371;
          c = times_number ar (Num 2)
                (atan2_number ar (Math_sqrt ar a) (Math_sqrt ar (minus_number ar (Num 1) a)))
      in times_number ar R c)"

definition calculateDistance_double ::
  "arithmetic \<Rightarrow> real \<Rightarrow> real \<Rightarrow> real \<Rightarrow> real \<Rightarrow> number" where
  "calculateDistance_double ar lat1 lon1 lat2 lon2 =
     distance_from_a ar (Num (a_double ar lat1 lon1 lat2 lon2))"

section \<open>The proximity evaluator\<close>

definition PROXIMITY_THRESHOLD :: real where
  "PROXIMITY_THRESHOLD = 5 / 1000"

text \<open>The message of the notification: the bus emoji (U+1F68C, here its UTF-8 bytes),
  then the text and the stop's name.\<close>

definition approaching :: "Stop \<Rightarrow> toast" where
  "approaching stop =
     ToastInfo ([CHR 0xF0, CHR 0x9F, CHR 0x9A, CHR 0x8C] @ '' Bus approaching '' @ name stop) 5000"

text \<open>\<^verbatim>\<open>stops.forEach\<close>: the list \<^verbatim>\<open>stops\<close> is the one the closure sees; the
  result is the notifications shown, in the order they are shown.\<close>

fun checkProximityToStops :: "Stop list \<Rightarrow> BusLocation \<Rightarrow> toast list" where
  "checkProximityToStops [] location = []"
| "checkProximityToStops (stop # rest) location =
     (let distance = calculateDistance (latitude location) (longitude location)
                       (latitude stop) (longitude stop)
      in (if distance < PROXIMITY_THRESHOLD then [approaching stop] else [])
         @ checkProximityToStops rest location)"

section \<open>The tracking session\<close>

text \<open>\<^verbatim>\<open>.single()\<close>: the row when the query has exactly one row, no data otherwise.\<close>

fun single :: "'a list \<Rightarrow> 'a option" where
  "single [x] = Some x"
| "single xs = None"

text \<open>
  \<^verbatim>\<open>loadStops\<close> on the tables \<^verbatim>\<open>bus_routes\<close> (pairs of bus and route) and
  \<^verbatim>\<open>stops\<close> (pairs of route and stop): the stops of the bus's route, ordered by
  \<^verbatim>\<open>stop_order\<close> ascending.
\<close>

definition select_stops :: "(string \<times> Stop) list \<Rightarrow> string \<Rightarrow> Stop list" where
  "select_stops stops_table route_id =
     sort_key stop_order (map snd (filter (\<lambda>row. fst row = route_id) stops_table))"

definition loadStops ::
  "(string \<times> string) list \<Rightarrow> (string \<times> Stop) list \<Rightarrow> string \<Rightarrow> TrackBus \<Rightarrow> TrackBus" where
  "loadStops bus_routes stops_table busId s =
     (let s1 = s\<lparr>requests := requests s @ [Select_bus_route busId]\<rparr>
      in case single (filter (\<lambda>row. fst row = busId) bus_routes) of
           None \<Rightarrow> s1
         | Some busRoute \<Rightarrow>
             (let stopsData = select_stops stops_table (snd busRoute);
                  s2 = s1\<lparr>requests := requests s1 @ [Select_stops (snd busRoute)],
                          stops := stopsData\<rparr>
              in if map_current s2
                 then s2\<lparr>map_ops := map_ops s2 @
                        map (\<lambda>stop. NewStopMarker (longitude stop, latitude stop) (name stop))
                          stopsData\<rparr>
                 else s2))"

definition updateBusMarker :: "BusLocation \<Rightarrow> TrackBus \<Rightarrow> TrackBus" where
  "updateBusMarker location s =
     (if \<not> map_current s then s
      else
        (let coords = (longitude location, latitude location);
             s1 = (case busMarker s of
                     Some m \<Rightarrow> s\<lparr>busMarker := Some coords,
                                  map_ops := map_ops s @ [SetLngLat coords]\<rparr>
                   | None \<Rightarrow> s\<lparr>busMarker := Some coords,
                                map_ops := map_ops s @ [NewBusMarker coords]\<rparr>)
         in s1\<lparr>map_ops := map_ops s1 @ [FlyTo coords 14]\<rparr>))"

text \<open>The body of the effect on \<^verbatim>\<open>[busLocation]\<close>.\<close>

definition busLocation_effect :: "TrackBus \<Rightarrow> TrackBus" where
  "busLocation_effect s =
     (case busLocation s of
        None \<Rightarrow> s
      | Some location \<Rightarrow> if map_current s then updateBusMarker location s else s)"

text \<open>
  A committed render of the mounted component. The effect on \<^verbatim>\<open>[busLocation]\<close>
  runs when \<^verbatim>\<open>setBusLocation\<close> was called since the last render (every payload and
  every query answer is a new object), once, with the value set last.
\<close>

definition render :: "TrackBus \<Rightarrow> TrackBus" where
  "render s =
     (if busLocation_changed s then busLocation_effect (s\<lparr>busLocation_changed := False\<rparr>)
      else s)"

text \<open>The effect on \<^verbatim>\<open>[mapboxToken]\<close> and \<^verbatim>\<open>initializeMap\<close>: once a token was
  entered, a map is created unless there is one.\<close>

definition initializeMap :: "string \<Rightarrow> TrackBus \<Rightarrow> TrackBus" where
  "initializeMap mapboxToken s =
     (if mapboxToken \<noteq> [] \<and> \<not> map_current s then s\<lparr>map_current := True\<rparr> else s)"

text \<open>The callback of the channel, for the payload \<^verbatim>\<open>newLocation\<close>; \<open>cb_stops\<close> is the
  \<^verbatim>\<open>stops\<close> binding it closes over. \<^verbatim>\<open>setBusLocation\<close> is called and the stops
  are checked; the marker is not touched here but by the effect of the next render.\<close>

definition on_insert :: "Stop list \<Rightarrow> BusLocation \<Rightarrow> TrackBus \<Rightarrow> TrackBus" where
  "on_insert cb_stops newLocation s =
     (let s1 = s\<lparr>busLocation := Some newLocation, busLocation_changed := True\<rparr>
      in s1\<lparr>toasts := toasts s1 @ checkProximityToStops cb_stops newLocation,
            proximity_checks := proximity_checks s1 @ [newLocation]\<rparr>)"

text \<open>The backend delivers an inserted row of the bus: the callback runs when a channel
  is subscribed.\<close>

definition push_event :: "BusLocation \<Rightarrow> TrackBus \<Rightarrow> TrackBus" where
  "push_event newLocation s =
     (case channel s of
        None \<Rightarrow> s
      | Some cb_stops \<Rightarrow> on_insert cb_stops newLocation s)"

text \<open>The query of \<^verbatim>\<open>loadLatestLocation\<close> on the table \<^verbatim>\<open>bus_locations\<close> (pairs
  of bus and location): the rows of the bus by \<^verbatim>\<open>timestamp\<close> descending, limit one,
  \<^verbatim>\<open>.single()\<close>.\<close>

definition select_latest_location ::
  "(string \<times> BusLocation) list \<Rightarrow> string \<Rightarrow> BusLocation option" where
  "select_latest_location bus_locations busId =
     single (take 1 (rev (sort_key timestamp
       (map snd (filter (\<lambda>row. fst row = busId) bus_locations)))))"

text \<open>\<^verbatim>\<open>loadLatestLocation\<close> after its \<^verbatim>\<open>await\<close>, with the data of the query.\<close>

definition loadLatestLocation_resolved :: "BusLocation option \<Rightarrow> TrackBus \<Rightarrow> TrackBus" where
  "loadLatestLocation_resolved data s =
     (case data of
        None \<Rightarrow> s
      | Some d \<Rightarrow> s\<lparr>busLocation := Some d, busLocation_changed := True\<rparr>)"

definition removeChannel :: "TrackBus \<Rightarrow> TrackBus" where
  "removeChannel s = s\<lparr>requests := requests s @ [Remove_channel], channel := None\<rparr>"

text \<open>\<^verbatim>\<open>subscribeToLocationUpdates\<close>: the channel is subscribed, the latest location
  is requested, and the function that removes the channel is returned.\<close>

definition subscribeToLocationUpdates ::
  "string \<Rightarrow> TrackBus \<Rightarrow> TrackBus \<times> (TrackBus \<Rightarrow> TrackBus)" where
  "subscribeToLocationUpdates busId s =
     (s\<lparr>requests := requests s @ [Subscribe_bus_locations busId, Select_latest_location busId],
        channel := Some (stops s)\<rparr>,
      removeChannel)"

text \<open>
  The effect on \<^verbatim>\<open>[busId]\<close>: its body calls \<^verbatim>\<open>subscribeToLocationUpdates()\<close> as a
  statement and returns nothing, so the component registers no cleanup
  (\<^verbatim>\<open>loadBusInfo\<close> only fills the header and is left out; \<^verbatim>\<open>loadStops\<close> is
  applied when its queries answer).
\<close>

definition mount_effect :: "string \<Rightarrow> TrackBus \<Rightarrow> TrackBus \<times> (TrackBus \<Rightarrow> TrackBus) option" where
  "mount_effect busId s = (fst (subscribeToLocationUpdates busId s), None)"

text \<open>
  The functions above act on the state of a mounted component. A session is the
  component, whether it is mounted, and the cleanup that the effect on \<^verbatim>\<open>[busId]\<close>
  returned. Unmounting runs that cleanup and marks the component unmounted. The channel
  and the fetch belong to the backend client, not to the component: their handlers still
  run after the unmount, and what they do outside the component (notifications,
  requests) stands; but of an unmounted component the calls of the state setters are
  dropped, and it renders no more, so its effects run no more.
\<close>

record Session =
  component :: TrackBus
  mounted :: bool
  cleanup :: "(TrackBus \<Rightarrow> TrackBus) option"

definition mount :: "string \<Rightarrow> TrackBus \<Rightarrow> Session" where
  "mount busId s =
     \<lparr>component = fst (mount_effect busId s), mounted = True,
      cleanup = snd (mount_effect busId s)\<rparr>"

definition unmount :: "Session \<Rightarrow> Session" where
  "unmount S =
     S\<lparr>component := (case cleanup S of None \<Rightarrow> component S | Some f \<Rightarrow> f (component S)),
       mounted := False\<rparr>"

definition keep_state_updates :: "bool \<Rightarrow> TrackBus \<Rightarrow> TrackBus \<Rightarrow> TrackBus" where
  "keep_state_updates is_mounted before after =
     (if is_mounted then after
      else after\<lparr>busLocation := busLocation before,
                 busLocation_changed := busLocation_changed before,
                 stops := stops before\<rparr>)"

definition deliver_push :: "BusLocation \<Rightarrow> Session \<Rightarrow> Session" where
  "deliver_push newLocation S =
     S\<lparr>component :=
        keep_state_updates (mounted S) (component S) (push_event newLocation (component S))\<rparr>"

definition deliver_latest_location :: "BusLocation option \<Rightarrow> Session \<Rightarrow> Session" where
  "deliver_latest_location data S =
     S\<lparr>component :=
        keep_state_updates (mounted S) (component S)
          (loadLatestLocation_resolved data (component S))\<rparr>"

definition session_render :: "Session \<Rightarrow> Session" where
  "session_render S = (if mounted S then S\<lparr>component := render (component S)\<rparr> else S)"

section \<open>Selecting a bus\<close>

text \<open>
  The table \<^verbatim>\<open>student_buses\<close> holds pairs of student and bus, unique as pairs. The
  backend may refuse a write (network, row-level security): \<open>accepted\<close> says whether it
  takes it. A delete removes every row of the student; an insert answers with an error
  when it is refused or the pair exists.
\<close>

record Dashboard = Page +
  student_buses :: "(string \<times> string) list"
  myBus :: "string option"

definition delete_student_buses ::
  "bool \<Rightarrow> string \<Rightarrow> (string \<times> string) list \<Rightarrow> (string \<times> string) list" where
  "delete_student_buses accepted student tbl =
     (if accepted then filter (\<lambda>row. fst row \<noteq> student) tbl else tbl)"

definition insert_student_buses ::
  "bool \<Rightarrow> string \<times> string \<Rightarrow> (string \<times> string) list \<Rightarrow> bool \<times> (string \<times> string) list" where
  "insert_student_buses accepted row tbl =
     (if accepted \<and> row \<notin> set tbl then (False, tbl @ [row]) else (True, tbl))"

definition loadMyBus :: "string \<Rightarrow> Dashboard \<Rightarrow> Dashboard" where
  "loadMyBus user s =
     (case single (filter (\<lambda>row. fst row = user) (student_buses s)) of
        None \<Rightarrow> s
      | Some row \<Rightarrow> s\<lparr>myBus := Some (snd row)\<rparr>)"

text \<open>\<^verbatim>\<open>handleSelectBus\<close>: the answer of the delete is not looked at; \<open>error\<close> is the
  answer of the insert.\<close>

definition handleSelectBus ::
  "string option \<Rightarrow> bool \<Rightarrow> bool \<Rightarrow> string \<Rightarrow> Dashboard \<Rightarrow> Dashboard" where
  "handleSelectBus user delete_accepted insert_accepted busId s =
     (case user of
        None \<Rightarrow> s
      | Some uid \<Rightarrow>
          (let s1 = s\<lparr>requests := requests s @ [Delete_student_buses uid],
                      student_buses := delete_student_buses delete_accepted uid (student_buses s)\<rparr>;
               (error, tbl) = insert_student_buses insert_accepted (uid, busId) (student_buses s1);
               s2 = s1\<lparr>requests := requests s1 @ [Insert_student_buses uid busId],
                       student_buses := tbl\<rparr>
           in if error
              then s2\<lparr>toasts := toasts s2 @ [ToastError ''Failed to select bus'']\<rparr>
              else loadMyBus uid
                     (s2\<lparr>toasts := toasts s2 @ [ToastSuccess ''Bus selected successfully'']\<rparr>)))"

section \<open>The distance, in exact arithmetic and as the engine computes it\<close>

lemma sin_half_diff_cos_cos:
  fixes x y :: real
  shows "(sin ((y - x) / 2))\<^sup>2 + cos x * cos y = (cos ((x + y) / 2))\<^sup>2"
proof -
  define p where "p = (x + y) / 2"
  define q where "q = (y - x) / 2"
  have x: "x = p - q" and y: "y = p + q" by (simp_all add: p_def q_def field_simps)
  have "cos x * cos y = (cos p * cos q)\<^sup>2 - (sin p * sin q)\<^sup>2"
    unfolding x y cos_add cos_diff by (simp add: power2_eq_square algebra_simps)
  also have "\<dots> = (cos p)\<^sup>2 * (1 - (sin q)\<^sup>2) - (1 - (cos p)\<^sup>2) * (sin q)\<^sup>2"
  proof -
    have "(cos q)\<^sup>2 = 1 - (sin q)\<^sup>2"
      using sin_cos_squared_add[of q] by linarith
    moreover have "(sin p)\<^sup>2 = 1 - (cos p)\<^sup>2"
      using sin_cos_squared_add[of p] by linarith
    ultimately show ?thesis by (simp only: power_mult_distrib)
  qed
  also have "\<dots> = (cos p)\<^sup>2 - (sin q)\<^sup>2" by (simp add: algebra_simps)
  finally show ?thesis by (simp add: p_def q_def)
qed

lemma haversine_in_unit_interval:
  fixes x y v :: real
  shows "0 \<le> (sin ((y - x) / 2))\<^sup>2 + cos x * cos y * (sin v)\<^sup>2 \<and>
         (sin ((y - x) / 2))\<^sup>2 + cos x * cos y * (sin v)\<^sup>2 \<le> 1"
proof -
  define a where "a = (sin ((y - x) / 2))\<^sup>2 + cos x * cos y * (sin v)\<^sup>2"
  define s where "s = (sin v)\<^sup>2"
  define A where "A = (sin ((y - x) / 2))\<^sup>2"
  define B where "B = (cos ((x + y) / 2))\<^sup>2"
  have s: "0 \<le> s" "s \<le> 1" by (simp_all add: s_def abs_square_le_1)
  have A: "0 \<le> A" "A \<le> 1" by (simp_all add: A_def abs_square_le_1)
  have B: "0 \<le> B" "B \<le> 1" by (simp_all add: B_def abs_square_le_1)
  have "cos x * cos y = B - A" using sin_half_diff_cos_cos[of y x] by (simp add: A_def B_def)
  then have "a = A + (B - A) * s" by (simp add: a_def s_def A_def)
  then have a: "a = (1 - s) * A + s * B" by (simp add: algebra_simps)
  have "0 \<le> (1 - s) * A + s * B" using s A B by simp
  moreover have "(1 - s) * A + s * B \<le> (1 - s) * 1 + s * 1"
    using s A B by (intro add_mono mult_left_mono) simp_all
  ultimately show ?thesis using a unfolding a_def by simp
qed

lemma atan2_sqrt_arcsin:
  assumes "0 \<le> a" "a \<le> 1"
  shows "atan2 (sqrt a) (sqrt (1 - a)) = arcsin (sqrt a)"
proof (cases "a = 1")
  case True
  then show ?thesis by (simp add: atan2_def)
next
  case False
  with assms have lt: "a < 1" by simp
  then have pos: "0 < sqrt (1 - a)" by simp
  have s1: "sqrt a < 1" using lt assms by simp
  have s0: "- 1 < sqrt a" using assms by (smt (verit) real_sqrt_ge_zero)
  have "arcsin (sqrt a) = arctan (sqrt a / sqrt (1 - (sqrt a)\<^sup>2))"
    by (rule arcsin_arctan[OF s0 s1])
  also have "(sqrt a)\<^sup>2 = a" using assms by simp
  finally show ?thesis using pos by (simp add: atan2_def)
qed

lemma calculateDistance_unfold:
  "calculateDistance lat1 lon1 lat2 lon2 =
     6371 * (2 * atan2 (sqrt (haversine_a lat1 lon1 lat2 lon2))
                       (sqrt (1 - haversine_a lat1 lon1 lat2 lon2)))"
  unfolding calculateDistance_def haversine_a_def Let_def by (rule refl)

lemma haversine_a_range:
  "0 \<le> haversine_a lat1 lon1 lat2 lon2 \<and> haversine_a lat1 lon1 lat2 lon2 \<le> 1"
proof -
  define x where "x = lat1 * pi / 180"
  define y where "y = lat2 * pi / 180"
  define v where "v = (lon2 - lon1) * pi / 180 / 2"
  have e: "(lat2 - lat1) * pi / 180 / 2 = (y - x) / 2"
    by (simp add: x_def y_def field_simps)
  have "haversine_a lat1 lon1 lat2 lon2 =
          (sin ((y - x) / 2))\<^sup>2 + cos x * cos y * (sin v)\<^sup>2"
    unfolding haversine_a_def e x_def[symmetric] y_def[symmetric] v_def[symmetric]
    by (simp add: power2_eq_square)
  then show ?thesis using haversine_in_unit_interval[of y x v] by simp
qed

lemma calculateDistance_arcsin:
  "calculateDistance lat1 lon1 lat2 lon2 =
     2 * 6371 * arcsin (sqrt (haversine_a lat1 lon1 lat2 lon2))"
  using haversine_a_range[of lat1 lon1 lat2 lon2]
  by (simp add: calculateDistance_unfold atan2_sqrt_arcsin)

lemma calculateDistance_equator:
  assumes "0 \<le> x" "x \<le> 180"
  shows "calculateDistance 0 0 0 x = 6371 * (x * pi / 180)"
proof -
  define t where "t = x * pi / 180 / 2"
  have t: "0 \<le> t" "t \<le> pi / 2" using assms by (simp_all add: t_def)
  then have "0 \<le> sin t" by (intro sin_ge_zero) simp_all
  then have "sqrt (sin t * sin t) = sin t" by simp
  moreover have "arcsin (sin t) = t" using t by (intro arcsin_sin) simp_all
  moreover have "haversine_a 0 0 0 x = sin t * sin t"
    by (simp add: haversine_a_def t_def)
  ultimately have "calculateDistance 0 0 0 x = 2 * 6371 * t"
    by (simp add: calculateDistance_arcsin)
  then show ?thesis by (simp add: t_def)
qed

lemma calculateDistance_same: "calculateDistance lat lon lat lon = 0"
  by (simp add: calculateDistance_arcsin haversine_a_def)

lemma a_double_exact:
  "a_double exact_arithmetic lat1 lon1 lat2 lon2 = haversine_a lat1 lon1 lat2 lon2"
  by (simp add: a_double_def exact_arithmetic_def haversine_a_def Let_def)

lemma calculateDistance_double_NaN_iff:
  "(calculateDistance_double ar lat1 lon1 lat2 lon2 = NaN) =
     (a_double ar lat1 lon1 lat2 lon2 < 0 \<or> rnd ar (1 - a_double ar lat1 lon1 lat2 lon2) < 0)"
  by (simp add: calculateDistance_double_def distance_from_a_def Let_def)

lemma distance_from_a_above_one:
  "distance_from_a (ar\<lparr>rnd := \<lambda>x. x\<rparr>) (Num (1 + 1 / 2 ^ 52)) = NaN"
  by (simp add: distance_from_a_def Let_def)

lemma calculateDistance_double_exact:
  "calculateDistance_double exact_arithmetic lat1 lon1 lat2 lon2 =
     Num (calculateDistance lat1 lon1 lat2 lon2)"
proof -
  define a where "a = haversine_a lat1 lon1 lat2 lon2"
  have rng: "0 \<le> a \<and> a \<le> 1" unfolding a_def by (rule haversine_a_range)
  have e: "a_double exact_arithmetic lat1 lon1 lat2 lon2 = a"
    by (simp add: a_double_exact a_def)
  have r: "rnd exact_arithmetic = (\<lambda>x. x)" "Math_atan2 exact_arithmetic = atan2"
    by (simp_all add: exact_arithmetic_def)
  have "calculateDistance_double exact_arithmetic lat1 lon1 lat2 lon2 =
          Num (6371 * (2 * atan2 (sqrt a) (sqrt (1 - a))))"
    using rng by (simp add: calculateDistance_double_def distance_from_a_def Let_def e r)
  then show ?thesis by (simp add: calculateDistance_unfold a_def)
qed

lemma haversine_a_ref:
  "haversine_ref lat1 lon1 lat2 lon2 =
     2 * 6371 * arcsin (sqrt (haversine_a lat1 lon1 lat2 lon2))"
proof -
  have "haversine_a lat1 lon1 lat2 lon2 =
          (sin (((lat2 - lat1) / 2) * (pi / 180)))\<^sup>2 +
              cos (lat1 * (pi / 180)) * cos (lat2 * (pi / 180)) *
              (sin (((lon2 - lon1) / 2) * (pi / 180)))\<^sup>2"
    by (simp add: haversine_a_def power2_eq_square)
  then show ?thesis by (simp add: haversine_ref_def Let_def)
qed

text \<open>
  Claim C1. \<^verbatim>\<open>calculateDistance\<close> is to equal the haversine distance of the reference
  definition \<open>2 * 6371 * asin (sqrt h)\<close> for every pair of points. In exact arithmetic it
  does. As the engine computes it, the function returns NaN exactly when the computed
  \<^verbatim>\<open>a\<close> is negative or \<open>1 - a\<close> is: \<^verbatim>\<open>Math.sqrt\<close> then gets a negative argument. For
  nearly antipodal points the doubles round \<^verbatim>\<open>a\<close> above 1: at (0.08, 0) and
  (-0.08, 180) they give \<open>a = 1 + 2^-52\<close> and \<open>1 - a = - 2^-52\<close> (an exact
  subtraction), and from that \<^verbatim>\<open>a\<close> the last two statements give NaN whatever the
  library functions return, where the reference is 20015.09.
\<close>

theorem calculateDistance_double_reference:
  "(calculateDistance_double ar lat1 lon1 lat2 lon2 = NaN) =
     (a_double ar lat1 lon1 lat2 lon2 < 0 \<or> rnd ar (1 - a_double ar lat1 lon1 lat2 lon2) < 0) \<and>
   calculateDistance_double exact_arithmetic lat1 lon1 lat2 lon2 =
     Num (haversine_ref lat1 lon1 lat2 lon2) \<and>
   distance_from_a (ar\<lparr>rnd := \<lambda>x. x\<rparr>) (Num (1 + 1 / 2 ^ 52)) = NaN"
proof (intro conjI)
  show "(calculateDistance_double ar lat1 lon1 lat2 lon2 = NaN) =
     (a_double ar lat1 lon1 lat2 lon2 < 0 \<or> rnd ar (1 - a_double ar lat1 lon1 lat2 lon2) < 0)"
    by (rule calculateDistance_double_NaN_iff)
  show "calculateDistance_double exact_arithmetic lat1 lon1 lat2 lon2 =
     Num (haversine_ref lat1 lon1 lat2 lon2)"
    by (simp add: calculateDistance_double_exact calculateDistance_arcsin haversine_a_ref)
  show "distance_from_a (ar\<lparr>rnd := \<lambda>x. x\<rparr>) (Num (1 + 1 / 2 ^ 52)) = NaN"
    by (rule distance_from_a_above_one)
qed

text \<open>
  Claim C9. The distance is symmetric in its two points:
  \<^verbatim>\<open>calculateDistance(a, b)\<close> equals \<^verbatim>\<open>calculateDistance(b, a)\<close>.
\<close>

theorem calculateDistance_symmetric:
  "calculateDistance lat1 lon1 lat2 lon2 = calculateDistance lat2 lon2 lat1 lon1"
proof -
  have lat: "(lat1 - lat2) * pi / 180 / 2 = - ((lat2 - lat1) * pi / 180 / 2)"
    by (simp add: field_simps)
  have lon: "(lon1 - lon2) * pi / 180 / 2 = - ((lon2 - lon1) * pi / 180 / 2)"
    by (simp add: field_simps)
  have "haversine_a lat2 lon2 lat1 lon1 = haversine_a lat1 lon1 lat2 lon2"
    unfolding haversine_a_def lat lon sin_minus by (simp add: mult.commute)
  then show ?thesis by (simp add: calculateDistance_unfold)
qed

lemma calculateDistance_exact_bounds:
  "0 \<le> calculateDistance lat1 lon1 lat2 lon2 \<and>
   calculateDistance lat1 lon1 lat2 lon2 \<le> pi * 6371"
proof -
  define a where "a = haversine_a lat1 lon1 lat2 lon2"
  have rng: "0 \<le> a \<and> a \<le> 1"
    unfolding a_def by (rule haversine_a_range)
  then have s: "0 \<le> sqrt a" "sqrt a \<le> 1" by simp_all
  have lo: "0 \<le> arcsin (sqrt a)"
    using arcsin_le_arcsin[of 0 "sqrt a"] s by simp
  have hi: "arcsin (sqrt a) \<le> pi / 2"
    using s by (intro arcsin_ubound) linarith+
  have d: "calculateDistance lat1 lon1 lat2 lon2 = 2 * 6371 * arcsin (sqrt a)"
    unfolding a_def by (rule calculateDistance_arcsin)
  show ?thesis using lo hi unfolding d by simp
qed

text \<open>
  Claim C10. The value of \<^verbatim>\<open>calculateDistance\<close> is to lie in the closed interval from 0
  to \<open>pi * 6371\<close> kilometres. In exact arithmetic it does. As the engine computes it, the
  function returns a number exactly when the computed \<^verbatim>\<open>a\<close> and \<open>1 - a\<close> are not
  negative, and NaN otherwise, which is in no interval: so it does at (0.08, 0) and
  (-0.08, 180), where the doubles give \<open>a = 1 + 2^-52\<close>, from which the last two
  statements return no number.
\<close>

theorem calculateDistance_double_range:
  "(\<exists>d. calculateDistance_double exact_arithmetic lat1 lon1 lat2 lon2 = Num d \<and>
        0 \<le> d \<and> d \<le> pi * 6371) \<and>
   (\<exists>d. calculateDistance_double ar lat1 lon1 lat2 lon2 = Num d) =
     (0 \<le> a_double ar lat1 lon1 lat2 lon2 \<and>
      0 \<le> rnd ar (1 - a_double ar lat1 lon1 lat2 lon2)) \<and>
   (\<nexists>d. distance_from_a (ar\<lparr>rnd := \<lambda>x. x\<rparr>) (Num (1 + 1 / 2 ^ 52)) = Num d)"
proof (intro conjI)
  show "\<nexists>d. distance_from_a (ar\<lparr>rnd := \<lambda>x. x\<rparr>) (Num (1 + 1 / 2 ^ 52)) = Num d"
    unfolding distance_from_a_above_one by simp
  show "\<exists>d. calculateDistance_double exact_arithmetic lat1 lon1 lat2 lon2 = Num d \<and>
        0 \<le> d \<and> d \<le> pi * 6371"
    using calculateDistance_exact_bounds[of lat1 lon1 lat2 lon2]
    by (simp add: calculateDistance_double_exact)
  have "(\<exists>d. calculateDistance_double ar lat1 lon1 lat2 lon2 = Num d) =
          (calculateDistance_double ar lat1 lon1 lat2 lon2 \<noteq> NaN)"
    by (cases "calculateDistance_double ar lat1 lon1 lat2 lon2") simp_all
  then show "(\<exists>d. calculateDistance_double ar lat1 lon1 lat2 lon2 = Num d) =
     (0 \<le> a_double ar lat1 lon1 lat2 lon2 \<and>
      0 \<le> rnd ar (1 - a_double ar lat1 lon1 lat2 lon2))"
    by (simp add: calculateDistance_double_NaN_iff not_less)
qed

section \<open>Which stops are notified\<close>

lemma checkProximityToStops_append:
  "checkProximityToStops (xs @ ys) location =
     checkProximityToStops xs location @ checkProximityToStops ys location"
  by (induction xs) (simp_all add: Let_def)

lemma checkProximityToStops_filter:
  "checkProximityToStops ss location =
     map approaching
       (filter (\<lambda>stop. calculateDistance (latitude location) (longitude location)
                         (latitude stop) (longitude stop) < PROXIMITY_THRESHOLD) ss)"
  by (induction ss) (simp_all add: Let_def)

lemma equator_3: "calculateDistance 0 0 0 (3 / 1000) = 6371 * (3 / 1000 * pi / 180)"
  by (rule calculateDistance_equator) simp_all

lemma equator_3_bounds:
  "1 / 5 < calculateDistance 0 0 0 (3 / 1000) \<and> calculateDistance 0 0 0 (3 / 1000) < 1 / 2"
  using pi_ge_two pi_less_4 unfolding equator_3 by simp

lemma equator_small: "calculateDistance 0 0 0 (3 / 100000) < 5 / 1000"
proof -
  have "calculateDistance 0 0 0 (3 / 100000) = 6371 * (3 / 100000 * pi / 180)"
    by (rule calculateDistance_equator) simp_all
  then show ?thesis using pi_less_4 by simp
qed

text \<open>
  Claim C2. For every position, \<^verbatim>\<open>checkProximityToStops\<close> shows the notification of a
  stop exactly when \<^verbatim>\<open>calculateDistance\<close> of the position and the stop is below
  0.005, and \<^verbatim>\<open>calculateDistance\<close> is in kilometres: the radius is 0.005 km, that is
  5 metres, not the 500 metres of the comment and not a distance in degrees. On the
  equator a stop 0.003 degrees east of the bus is between 200 and 500 metres away and is
  not notified; a stop 0.00003 degrees east is notified.
\<close>

theorem checkProximityToStops_threshold_km:
  "checkProximityToStops ss location =
     concat (map (\<lambda>stop. if calculateDistance (latitude location) (longitude location)
                              (latitude stop) (longitude stop) < 5 / 1000
                          then [approaching stop] else []) ss) \<and>
   calculateDistance 0 0 0 (3 / 1000) = 6371 * (3 / 1000 * pi / 180) \<and>
   1 / 5 < calculateDistance 0 0 0 (3 / 1000) \<and>
   calculateDistance 0 0 0 (3 / 1000) < 1 / 2 \<and>
   checkProximityToStops
     [\<lparr>latitude = 0, longitude = 3 / 1000, stop_id = ''s1'', name = ''Gate'', stop_order = 1\<rparr>]
     \<lparr>latitude = 0, longitude = 0, timestamp = 0\<rparr> = [] \<and>
   checkProximityToStops
     [\<lparr>latitude = 0, longitude = 3 / 100000, stop_id = ''s1'', name = ''Gate'', stop_order = 1\<rparr>]
     \<lparr>latitude = 0, longitude = 0, timestamp = 0\<rparr> =
     [approaching \<lparr>latitude = 0, longitude = 3 / 100000, stop_id = ''s1'', name = ''Gate'', stop_order = 1\<rparr>]"
proof (intro conjI)
  show "checkProximityToStops ss location =
     concat (map (\<lambda>stop. if calculateDistance (latitude location) (longitude location)
                              (latitude stop) (longitude stop) < 5 / 1000
                          then [approaching stop] else []) ss)"
    by (induction ss) (simp_all add: Let_def PROXIMITY_THRESHOLD_def)
  show "calculateDistance 0 0 0 (3 / 1000) = 6371 * (3 / 1000 * pi / 180)"
    by (rule equator_3)
  show "1 / 5 < calculateDistance 0 0 0 (3 / 1000)" "calculateDistance 0 0 0 (3 / 1000) < 1 / 2"
    using equator_3_bounds by simp_all
  show "checkProximityToStops
     [\<lparr>latitude = 0, longitude = 3 / 1000, stop_id = ''s1'', name = ''Gate'', stop_order = 1\<rparr>]
     \<lparr>latitude = 0, longitude = 0, timestamp = 0\<rparr> = []"
    using equator_3_bounds by (simp add: Let_def PROXIMITY_THRESHOLD_def)
  show "checkProximityToStops
     [\<lparr>latitude = 0, longitude = 3 / 100000, stop_id = ''s1'', name = ''Gate'', stop_order = 1\<rparr>]
     \<lparr>latitude = 0, longitude = 0, timestamp = 0\<rparr> =
     [approaching \<lparr>latitude = 0, longitude = 3 / 100000, stop_id = ''s1'', name = ''Gate'', stop_order = 1\<rparr>]"
    using equator_small by (simp add: Let_def PROXIMITY_THRESHOLD_def)
qed

lemma sorted_select_stops: "sorted (map stop_order (select_stops stops_table route))"
  by (simp add: select_stops_def)

lemma sorted_loadStops:
  "sorted (map stop_order (stops s)) \<Longrightarrow>
   sorted (map stop_order (stops (loadStops bus_routes stops_table busId s)))"
  by (simp add: loadStops_def Let_def sorted_select_stops split: option.splits)

lemma toasts_busLocation_effect [simp]: "toasts (busLocation_effect s) = toasts s"
  by (simp add: busLocation_effect_def updateBusMarker_def Let_def split: option.splits)

lemma toasts_on_insert:
  "toasts (on_insert cb l s) = toasts s @ checkProximityToStops cb l"
  by (simp add: on_insert_def Let_def)

text \<open>
  Claim C3. One call of \<^verbatim>\<open>checkProximityToStops\<close> shows exactly one notification for
  each stop whose distance is below the threshold and none for any other stop, in the
  order of the stop list, which \<^verbatim>\<open>loadStops\<close> keeps ascending in
  \<^verbatim>\<open>stop_order\<close>. Nothing is remembered between calls: a second position update
  adds the notifications of its own evaluation after those of the first.
\<close>

theorem checkProximityToStops_events_in_order:
  "checkProximityToStops ss location =
     map approaching
       (filter (\<lambda>stop. calculateDistance (latitude location) (longitude location)
                         (latitude stop) (longitude stop) < PROXIMITY_THRESHOLD) ss) \<and>
   (sorted (map stop_order (stops s)) \<longrightarrow>
      sorted (map stop_order
        (filter (\<lambda>stop. calculateDistance (latitude location) (longitude location)
                         (latitude stop) (longitude stop) < PROXIMITY_THRESHOLD)
           (stops (loadStops bus_routes stops_table busId s))))) \<and>
   toasts (on_insert ss location' (on_insert ss location s)) =
     toasts s @ checkProximityToStops ss location @ checkProximityToStops ss location'"
  by (simp add: checkProximityToStops_filter[symmetric] toasts_on_insert sorted_filter
      sorted_loadStops)

theorem checkProximityToStops_events_in_order_witness:
  "sorted (map stop_order (stops TrackBus_init)) \<and>
   stops (loadStops [(''bus1'', ''r1'')]
      [(''r1'', \<lparr>latitude = 0, longitude = 90, stop_id = ''b'', name = ''Depot'', stop_order = 2\<rparr>),
       (''r1'', \<lparr>latitude = 0, longitude = 0, stop_id = ''a'', name = ''Gate'', stop_order = 1\<rparr>)]
      ''bus1'' TrackBus_init) =
     [\<lparr>latitude = 0, longitude = 0, stop_id = ''a'', name = ''Gate'', stop_order = 1\<rparr>,
      \<lparr>latitude = 0, longitude = 90, stop_id = ''b'', name = ''Depot'', stop_order = 2\<rparr>] \<and>
   checkProximityToStops
     [\<lparr>latitude = 0, longitude = 0, stop_id = ''a'', name = ''Gate'', stop_order = 1\<rparr>,
      \<lparr>latitude = 0, longitude = 90, stop_id = ''b'', name = ''Depot'', stop_order = 2\<rparr>]
     \<lparr>latitude = 0, longitude = 0, timestamp = 7\<rparr> =
     [approaching \<lparr>latitude = 0, longitude = 0, stop_id = ''a'', name = ''Gate'', stop_order = 1\<rparr>] \<and>
   toasts (on_insert
     [\<lparr>latitude = 0, longitude = 0, stop_id = ''a'', name = ''Gate'', stop_order = 1\<rparr>,
      \<lparr>latitude = 0, longitude = 90, stop_id = ''b'', name = ''Depot'', stop_order = 2\<rparr>]
     \<lparr>latitude = 0, longitude = 0, timestamp = 8\<rparr>
     (on_insert
       [\<lparr>latitude = 0, longitude = 0, stop_id = ''a'', name = ''Gate'', stop_order = 1\<rparr>,
        \<lparr>latitude = 0, longitude = 90, stop_id = ''b'', name = ''Depot'', stop_order = 2\<rparr>]
       \<lparr>latitude = 0, longitude = 0, timestamp = 7\<rparr> TrackBus_init)) =
     [approaching \<lparr>latitude = 0, longitude = 0, stop_id = ''a'', name = ''Gate'', stop_order = 1\<rparr>,
      approaching \<lparr>latitude = 0, longitude = 0, stop_id = ''a'', name = ''Gate'', stop_order = 1\<rparr>]"
proof -
  let ?A = "\<lparr>latitude = 0, longitude = 0, stop_id = ''a'', name = ''Gate'', stop_order = 1\<rparr>"
  let ?B = "\<lparr>latitude = 0, longitude = 90, stop_id = ''b'', name = ''Depot'', stop_order = 2\<rparr>"
  let ?l = "\<lparr>latitude = 0, longitude = 0, timestamp = 7\<rparr>"
  let ?l' = "\<lparr>latitude = 0, longitude = 0, timestamp = 8\<rparr>"
  have near: "calculateDistance 0 0 0 0 < PROXIMITY_THRESHOLD"
    by (simp add: calculateDistance_same PROXIMITY_THRESHOLD_def)
  have far: "\<not> calculateDistance 0 0 0 90 < PROXIMITY_THRESHOLD"
    using calculateDistance_equator[of 90] pi_ge_two by (simp add: PROXIMITY_THRESHOLD_def)
  have init: "sorted (map stop_order (stops TrackBus_init))"
    by (simp add: TrackBus_init_def)
  have ld: "stops (loadStops [(''bus1'', ''r1'')] [(''r1'', ?B), (''r1'', ?A)] ''bus1'' TrackBus_init)
              = [?A, ?B]"
    by (simp add: loadStops_def select_stops_def TrackBus_init_def Let_def)
  note t = checkProximityToStops_events_in_order[where ss = "[?A, ?B]" and location = ?l and location' = ?l'
                and s = TrackBus_init]
  from t have c: "checkProximityToStops [?A, ?B] ?l = [approaching ?A]"
    using near far by simp
  from t have "toasts (on_insert [?A, ?B] ?l' (on_insert [?A, ?B] ?l TrackBus_init)) =
     toasts TrackBus_init @ checkProximityToStops [?A, ?B] ?l @ checkProximityToStops [?A, ?B] ?l'"
    by blast
  also have "\<dots> = [approaching ?A, approaching ?A]"
    using near far by (simp add: TrackBus_init_def Let_def)
  finally show ?thesis using init ld c by blast
qed

section \<open>Delivered positions and the marker\<close>

lemma busLocation_busLocation_effect [simp]: "busLocation (busLocation_effect s) = busLocation s"
  by (simp add: busLocation_effect_def updateBusMarker_def Let_def split: option.splits)

lemma channel_busLocation_effect [simp]: "channel (busLocation_effect s) = channel s"
  by (simp add: busLocation_effect_def updateBusMarker_def Let_def split: option.splits)

lemma map_current_busLocation_effect [simp]: "map_current (busLocation_effect s) = map_current s"
  by (simp add: busLocation_effect_def updateBusMarker_def Let_def split: option.splits)

lemma proximity_checks_busLocation_effect [simp]:
  "proximity_checks (busLocation_effect s) = proximity_checks s"
  by (simp add: busLocation_effect_def updateBusMarker_def Let_def split: option.splits)

lemma requests_busLocation_effect [simp]: "requests (busLocation_effect s) = requests s"
  by (simp add: busLocation_effect_def updateBusMarker_def Let_def split: option.splits)

lemma on_insert_fields [simp]:
  "busLocation (on_insert cb l s) = Some l"
  "busLocation_changed (on_insert cb l s) = True"
  "channel (on_insert cb l s) = channel s"
  "map_current (on_insert cb l s) = map_current s"
  "map_ops (on_insert cb l s) = map_ops s"
  "busMarker (on_insert cb l s) = busMarker s"
  "proximity_checks (on_insert cb l s) = proximity_checks s @ [l]"
  by (simp_all add: on_insert_def Let_def)

lemma push_event_subscribed: "channel s = Some cb \<Longrightarrow> push_event l s = on_insert cb l s"
  by (simp add: push_event_def)

lemma push_event_keeps [simp]:
  "map_current (push_event l s) = map_current s"
  "map_ops (push_event l s) = map_ops s"
  "busMarker (push_event l s) = busMarker s"
  "channel (push_event l s) = channel s"
  by (simp_all add: push_event_def split: option.splits)

lemma render_keeps [simp]:
  "busLocation (render s) = busLocation s"
  "channel (render s) = channel s"
  "map_current (render s) = map_current s"
  "proximity_checks (render s) = proximity_checks s"
  by (simp_all add: render_def)

lemma render_with_map:
  assumes "busLocation_changed s" and "busLocation s = Some l" and "map_current s"
  shows "map_ops (render s) =
           map_ops s @ [case busMarker s of None \<Rightarrow> NewBusMarker (longitude l, latitude l)
                        | Some m \<Rightarrow> SetLngLat (longitude l, latitude l),
                        FlyTo (longitude l, latitude l) 14]"
    and "busMarker (render s) = Some (longitude l, latitude l)"
  using assms
  by (simp_all add: render_def busLocation_effect_def updateBusMarker_def Let_def
      split: option.splits)

lemma render_without_map:
  assumes "\<not> map_current s"
  shows "map_ops (render s) = map_ops s"
  using assms by (simp add: render_def busLocation_effect_def split: option.splits)

lemma render_after_push:
  assumes "map_current s" and "channel s = Some cb"
  shows "map_ops (render (push_event l s)) =
           map_ops s @ [case busMarker s of None \<Rightarrow> NewBusMarker (longitude l, latitude l)
                        | Some m \<Rightarrow> SetLngLat (longitude l, latitude l),
                        FlyTo (longitude l, latitude l) 14]"
    and "busMarker (render (push_event l s)) = Some (longitude l, latitude l)"
    and "busLocation (render (push_event l s)) = Some l"
    and "map_current (render (push_event l s))"
    and "channel (render (push_event l s)) = Some cb"
proof -
  have p: "busLocation_changed (push_event l s)" "busLocation (push_event l s) = Some l"
    "map_current (push_event l s)"
    using assms by (simp_all add: push_event_subscribed)
  show "map_ops (render (push_event l s)) =
           map_ops s @ [case busMarker s of None \<Rightarrow> NewBusMarker (longitude l, latitude l)
                        | Some m \<Rightarrow> SetLngLat (longitude l, latitude l),
                        FlyTo (longitude l, latitude l) 14]"
    using render_with_map(1)[OF p] by simp
  show "busMarker (render (push_event l s)) = Some (longitude l, latitude l)"
    using render_with_map(2)[OF p] by simp
  show "busLocation (render (push_event l s)) = Some l" using p by simp
  show "map_current (render (push_event l s))" using p by simp
  show "channel (render (push_event l s)) = Some cb" using assms by simp
qed

lemma mount_effect_init:
  "fst (mount_effect busId s) =
     s\<lparr>requests := requests s @ [Subscribe_bus_locations busId, Select_latest_location busId],
       channel := Some (stops s)\<rparr>"
  "snd (mount_effect busId s) = None"
  by (simp_all add: mount_effect_def subscribeToLocationUpdates_def)

text \<open>
  Claim C4, as amended. Three positions P1, P2, P3 delivered in order leave the current
  position at P3. The marker is moved by the effect on the position, once for each
  committed render. When a map is attached and a render is committed after each
  delivery, exactly three marker updates are made, in the order P1, P2, P3: each sets
  the one bus marker (created by the first update when there was none) at the delivered
  coordinates and flies the map there. Deliveries that arrive before the next render
  make one marker update, at P3. With no map attached no marker update is made.
\<close>

theorem three_positions_one_update_per_render:
  assumes "map_current s" and "channel s = Some cb"
  shows "busLocation (render (push_event P3 (render (push_event P2 (render (push_event P1 s))))))
           = Some P3 \<and>
         map_ops (render (push_event P3 (render (push_event P2 (render (push_event P1 s)))))) =
           map_ops s @
           [case busMarker s of None \<Rightarrow> NewBusMarker (longitude P1, latitude P1)
            | Some m \<Rightarrow> SetLngLat (longitude P1, latitude P1),
            FlyTo (longitude P1, latitude P1) 14,
            SetLngLat (longitude P2, latitude P2), FlyTo (longitude P2, latitude P2) 14,
            SetLngLat (longitude P3, latitude P3), FlyTo (longitude P3, latitude P3) 14] \<and>
         busMarker (render (push_event P3 (render (push_event P2 (render (push_event P1 s))))))
           = Some (longitude P3, latitude P3) \<and>
         busLocation (render (push_event P3 (push_event P2 (push_event P1 s)))) = Some P3 \<and>
         map_ops (render (push_event P3 (push_event P2 (push_event P1 s)))) =
           map_ops s @
           [case busMarker s of None \<Rightarrow> NewBusMarker (longitude P3, latitude P3)
            | Some m \<Rightarrow> SetLngLat (longitude P3, latitude P3),
            FlyTo (longitude P3, latitude P3) 14] \<and>
         (\<not> map_current t \<longrightarrow>
            map_ops (render (push_event P3 (render (push_event P2 (render (push_event P1 t))))))
              = map_ops t \<and>
            map_ops (render (push_event P3 (push_event P2 (push_event P1 t)))) = map_ops t)"
proof -
  define s1 where "s1 = render (push_event P1 s)"
  define s2 where "s2 = render (push_event P2 s1)"
  define s3 where "s3 = render (push_event P3 s2)"
  note r1 = render_after_push[OF assms, of P1, folded s1_def]
  note r2 = render_after_push[OF r1(4) r1(5), of P2, folded s2_def]
  note r3 = render_after_push[OF r2(4) r2(5), of P3, folded s3_def]
  have each: "busLocation s3 = Some P3"
    "map_ops s3 = map_ops s @
           [case busMarker s of None \<Rightarrow> NewBusMarker (longitude P1, latitude P1)
            | Some m \<Rightarrow> SetLngLat (longitude P1, latitude P1),
            FlyTo (longitude P1, latitude P1) 14,
            SetLngLat (longitude P2, latitude P2), FlyTo (longitude P2, latitude P2) 14,
            SetLngLat (longitude P3, latitude P3), FlyTo (longitude P3, latitude P3) 14]"
    "busMarker s3 = Some (longitude P3, latitude P3)"
    using r1(1,2) r2(1,2) r3(1,2,3) by simp_all
  define u where "u = push_event P2 (push_event P1 s)"
  have u: "map_current u" "channel u = Some cb" "map_ops u = map_ops s"
    "busMarker u = busMarker s"
    using assms by (simp_all add: u_def)
  note b = render_after_push[OF u(1) u(2), of P3]
  have once: "busLocation (render (push_event P3 u)) = Some P3"
    "map_ops (render (push_event P3 u)) = map_ops s @
           [case busMarker s of None \<Rightarrow> NewBusMarker (longitude P3, latitude P3)
            | Some m \<Rightarrow> SetLngLat (longitude P3, latitude P3),
            FlyTo (longitude P3, latitude P3) 14]"
    using b(1,3) u(3,4) by simp_all
  have none: "\<not> map_current t \<longrightarrow>
            map_ops (render (push_event P3 (render (push_event P2 (render (push_event P1 t))))))
              = map_ops t \<and>
            map_ops (render (push_event P3 (push_event P2 (push_event P1 t)))) = map_ops t"
    by (simp add: render_without_map)
  show ?thesis
    using each once none unfolding s3_def s2_def s1_def u_def by blast
qed

theorem three_positions_one_update_per_render_witness:
  "map_current (initializeMap ''pk.token'' (fst (mount_effect ''bus1'' TrackBus_init))) \<and>
   channel (initializeMap ''pk.token'' (fst (mount_effect ''bus1'' TrackBus_init))) = Some [] \<and>
   map_ops (render (push_event \<lparr>latitude = 3, longitude = 30, timestamp = 3\<rparr>
       (render (push_event \<lparr>latitude = 2, longitude = 20, timestamp = 2\<rparr>
         (render (push_event \<lparr>latitude = 1, longitude = 10, timestamp = 1\<rparr>
           (initializeMap ''pk.token'' (fst (mount_effect ''bus1'' TrackBus_init))))))))) =
     [NewBusMarker (10, 1), FlyTo (10, 1) 14, SetLngLat (20, 2), FlyTo (20, 2) 14,
      SetLngLat (30, 3), FlyTo (30, 3) 14] \<and>
   busLocation (render (push_event \<lparr>latitude = 3, longitude = 30, timestamp = 3\<rparr>
       (render (push_event \<lparr>latitude = 2, longitude = 20, timestamp = 2\<rparr>
         (render (push_event \<lparr>latitude = 1, longitude = 10, timestamp = 1\<rparr>
           (initializeMap ''pk.token'' (fst (mount_effect ''bus1'' TrackBus_init))))))))) = Some \<lparr>latitude = 3, longitude = 30, timestamp = 3\<rparr> \<and>
   \<not> map_current (fst (mount_effect ''bus1'' TrackBus_init)) \<and>
   map_ops (render (push_event \<lparr>latitude = 3, longitude = 30, timestamp = 3\<rparr>
       (render (push_event \<lparr>latitude = 2, longitude = 20, timestamp = 2\<rparr>
         (render (push_event \<lparr>latitude = 1, longitude = 10, timestamp = 1\<rparr>
           (fst (mount_effect ''bus1'' TrackBus_init)))))))) = []"
proof -
  let ?s = "(initializeMap ''pk.token'' (fst (mount_effect ''bus1'' TrackBus_init)))"
  let ?t = "(fst (mount_effect ''bus1'' TrackBus_init))"
  have m: "map_current ?s" and c: "channel ?s = Some []"
    and o: "map_ops ?s = []" and b: "busMarker ?s = None"
    by (simp_all add: initializeMap_def mount_effect_init TrackBus_init_def)
  have n: "\<not> map_current ?t" and ot: "map_ops ?t = []"
    by (simp_all add: mount_effect_init TrackBus_init_def)
  note t = three_positions_one_update_per_render[OF m c,
      of "\<lparr>latitude = 3, longitude = 30, timestamp = 3\<rparr>" "\<lparr>latitude = 2, longitude = 20, timestamp = 2\<rparr>" "\<lparr>latitude = 1, longitude = 10, timestamp = 1\<rparr>" ?t]
  from t n have "map_ops (render (push_event \<lparr>latitude = 3, longitude = 30, timestamp = 3\<rparr>
       (render (push_event \<lparr>latitude = 2, longitude = 20, timestamp = 2\<rparr>
         (render (push_event \<lparr>latitude = 1, longitude = 10, timestamp = 1\<rparr>
           (fst (mount_effect ''bus1'' TrackBus_init)))))))) = map_ops ?t"
    by blast
  moreover from t have "map_ops (render (push_event \<lparr>latitude = 3, longitude = 30, timestamp = 3\<rparr>
       (render (push_event \<lparr>latitude = 2, longitude = 20, timestamp = 2\<rparr>
         (render (push_event \<lparr>latitude = 1, longitude = 10, timestamp = 1\<rparr>
           (initializeMap ''pk.token'' (fst (mount_effect ''bus1'' TrackBus_init))))))))) =
     [NewBusMarker (10, 1), FlyTo (10, 1) 14, SetLngLat (20, 2), FlyTo (20, 2) 14,
      SetLngLat (30, 3), FlyTo (30, 3) 14]"
    by (simp add: o b)
  moreover from t have "busLocation (render (push_event \<lparr>latitude = 3, longitude = 30, timestamp = 3\<rparr>
       (render (push_event \<lparr>latitude = 2, longitude = 20, timestamp = 2\<rparr>
         (render (push_event \<lparr>latitude = 1, longitude = 10, timestamp = 1\<rparr>
           (initializeMap ''pk.token'' (fst (mount_effect ''bus1'' TrackBus_init))))))))) = Some \<lparr>latitude = 3, longitude = 30, timestamp = 3\<rparr>"
    by blast
  ultimately show ?thesis using m c n by (simp add: ot)
qed

text \<open>
  Claim C4 as stated fails: with a map attached and the channel subscribed, three
  positions delivered before the next render make one marker update, at P3, not three.
\<close>

theorem three_positions_back_to_back:
  "busLocation (render (push_event \<lparr>latitude = 3, longitude = 30, timestamp = 3\<rparr>
       (push_event \<lparr>latitude = 2, longitude = 20, timestamp = 2\<rparr>
         (push_event \<lparr>latitude = 1, longitude = 10, timestamp = 1\<rparr>
           (initializeMap ''pk.token'' (fst (mount_effect ''bus1'' TrackBus_init))))))) = Some \<lparr>latitude = 3, longitude = 30, timestamp = 3\<rparr> \<and>
   map_ops (render (push_event \<lparr>latitude = 3, longitude = 30, timestamp = 3\<rparr>
       (push_event \<lparr>latitude = 2, longitude = 20, timestamp = 2\<rparr>
         (push_event \<lparr>latitude = 1, longitude = 10, timestamp = 1\<rparr>
           (initializeMap ''pk.token'' (fst (mount_effect ''bus1'' TrackBus_init))))))) = [NewBusMarker (30, 3), FlyTo (30, 3) 14] \<and>
   busMarker (render (push_event \<lparr>latitude = 3, longitude = 30, timestamp = 3\<rparr>
       (push_event \<lparr>latitude = 2, longitude = 20, timestamp = 2\<rparr>
         (push_event \<lparr>latitude = 1, longitude = 10, timestamp = 1\<rparr>
           (initializeMap ''pk.token'' (fst (mount_effect ''bus1'' TrackBus_init))))))) = Some (30, 3)"
  by (simp add: initializeMap_def mount_effect_init TrackBus_init_def push_event_def
      on_insert_def render_def busLocation_effect_def updateBusMarker_def Let_def)

section \<open>Teardown\<close>

lemma loadLatestLocation_resolved_fields [simp]:
  "toasts (loadLatestLocation_resolved data s) = toasts s"
  "proximity_checks (loadLatestLocation_resolved data s) = proximity_checks s"
  "channel (loadLatestLocation_resolved data s) = channel s"
  "map_ops (loadLatestLocation_resolved data s) = map_ops s"
  "busLocation (loadLatestLocation_resolved (Some d) s) = Some d"
  "loadLatestLocation_resolved None s = s"
  by (simp_all add: loadLatestLocation_resolved_def split: option.splits)

lemma push_event_removeChannel: "push_event p (removeChannel s) = removeChannel s"
  by (simp add: push_event_def removeChannel_def)

lemma mount_fields [simp]:
  "component (mount busId s) = fst (mount_effect busId s)"
  "mounted (mount busId s)"
  "cleanup (mount busId s) = None"
  by (simp_all add: mount_def mount_effect_init)

lemma unmount_fields [simp]:
  "mounted (unmount S) = False"
  "component (unmount S) =
     (case cleanup S of None \<Rightarrow> component S | Some f \<Rightarrow> f (component S))"
  by (simp_all add: unmount_def)

lemma unmounted_deliveries:
  assumes "\<not> mounted S"
  shows "busLocation (component (deliver_push p S)) = busLocation (component S)"
    and "busLocation (component (deliver_latest_location data S)) = busLocation (component S)"
    and "map_ops (component (session_render (deliver_push p S))) = map_ops (component S)"
    and "map_ops (component (session_render (deliver_latest_location data S))) =
           map_ops (component S)"
  using assms
  by (simp_all add: deliver_push_def deliver_latest_location_def session_render_def
      keep_state_updates_def)

text \<open>
  Claim C5. After the session is torn down no marker update and no proximity evaluation
  is to occur, the function that unsubscribes being called on teardown.
  \<^verbatim>\<open>subscribeToLocationUpdates\<close> builds that function, but the effect that calls it
  drops it and returns no cleanup: after the unmount the channel is still subscribed,
  and a position pushed then is still checked against the stops. Had the effect returned
  the function, the push would do nothing. What holds after the unmount: a push and the
  answer of a fetch in flight leave the current position and the marker as they were.
\<close>

theorem unmount_leaves_channel_subscribed:
  "cleanup (mount busId s0) = None \<and>
   mounted (unmount (mount busId s0)) = False \<and>
   channel (component (unmount (mount busId s0))) = Some (stops s0) \<and>
   proximity_checks (component (deliver_push p (unmount (mount busId s0)))) =
     proximity_checks s0 @ [p] \<and>
   proximity_checks (component (deliver_push p
      (unmount ((mount busId s0)\<lparr>cleanup := Some (snd (subscribeToLocationUpdates busId s0))\<rparr>)))) =
     proximity_checks s0 \<and>
   busLocation (component (deliver_push p (unmount S))) =
     busLocation (component (unmount S)) \<and>
   busLocation (component (deliver_latest_location data (unmount S))) =
     busLocation (component (unmount S)) \<and>
   map_ops (component (session_render (deliver_push p (unmount S)))) =
     map_ops (component (unmount S)) \<and>
   map_ops (component (session_render (deliver_latest_location data (unmount S)))) =
     map_ops (component (unmount S))"
proof -
  have u: "\<not> mounted (unmount S)" by simp
  have 1: "proximity_checks (component (deliver_push p (unmount (mount busId s0)))) =
     proximity_checks s0 @ [p]"
    by (simp add: deliver_push_def keep_state_updates_def mount_effect_init push_event_def)
  have 2: "proximity_checks (component (deliver_push p
      (unmount ((mount busId s0)\<lparr>cleanup := Some (snd (subscribeToLocationUpdates busId s0))\<rparr>)))) =
     proximity_checks s0"
    by (simp add: deliver_push_def keep_state_updates_def mount_effect_init
        subscribeToLocationUpdates_def push_event_removeChannel)
       (simp add: removeChannel_def)
  have 3: "channel (component (unmount (mount busId s0))) = Some (stops s0)"
    by (simp add: mount_effect_init)
  show ?thesis
    using 1 2 3 unmounted_deliveries[OF u] by simp
qed

section \<open>The eager fetch of the latest position\<close>

lemma single_Some_iff: "single xs = Some x \<longleftrightarrow> xs = [x]"
  by (cases xs rule: single.cases) simp_all

lemma sorted_le_last:
  "sorted (map f ys) \<Longrightarrow> x \<in> set ys \<Longrightarrow> f x \<le> f (last ys)"
  by (induction ys) auto

lemma latest_of_sorted:
  assumes "single (take 1 (rev (sort_key f xs))) = Some d"
  shows "d \<in> set xs \<and> (\<forall>x \<in> set xs. f x \<le> f d)"
proof -
  define ys where "ys = sort_key f xs"
  have srt: "sorted (map f ys)" and st: "set ys = set xs" by (simp_all add: ys_def)
  from assms have t: "take 1 (rev ys) = [d]" by (simp add: single_Some_iff ys_def)
  then have ne: "ys \<noteq> []" by auto
  with t have d: "d = last ys" by (simp add: take_Suc hd_rev split: list.splits)
  have "\<forall>x \<in> set ys. f x \<le> f (last ys)"
    using srt by (blast intro: sorted_le_last)
  moreover have "last ys \<in> set ys" using ne by simp
  ultimately show ?thesis using d st by simp
qed

lemma select_latest_location_Some:
  assumes "select_latest_location tbl busId = Some d"
  shows "(busId, d) \<in> set tbl \<and> (\<forall>row \<in> set tbl. fst row = busId \<longrightarrow> timestamp (snd row) \<le> timestamp d)"
  using latest_of_sorted[OF assms[unfolded select_latest_location_def]] by force

lemma select_latest_location_None:
  assumes "\<forall>row \<in> set tbl. fst row \<noteq> busId"
  shows "select_latest_location tbl busId = None"
proof -
  have "filter (\<lambda>row. fst row = busId) tbl = []" using assms by (simp add: filter_empty_conv)
  then show ?thesis by (simp add: select_latest_location_def)
qed

lemma push_event_fields:
  assumes "channel s = Some cb"
  shows "busLocation (push_event p s) = Some p"
    and "proximity_checks (push_event p s) = proximity_checks s @ [p]"
    and "toasts (push_event p s) = toasts s @ checkProximityToStops cb p"
  using assms by (simp_all add: push_event_def toasts_on_insert)

text \<open>
  Claim C6, as amended. Subscribing sends exactly one query for the latest position of
  the bus (its rows by timestamp descending, limit one). Its answer is handled by
  \<^verbatim>\<open>loadLatestLocation\<close> itself, which only sets the current position and does not
  evaluate proximity; a pushed position goes through the callback of the channel, which
  sets the position and evaluates proximity. When the bus has no row the answer holds no
  data and the state is unchanged, so the position stays empty until a push arrives.
\<close>

theorem eager_fetch_sets_position_only:
  "requests (fst (subscribeToLocationUpdates busId s)) =
     requests s @ [Subscribe_bus_locations busId, Select_latest_location busId] \<and>
   (select_latest_location tbl busId = Some d \<longrightarrow>
      (busId, d) \<in> set tbl \<and>
      (\<forall>row \<in> set tbl. fst row = busId \<longrightarrow> timestamp (snd row) \<le> timestamp d) \<and>
      busLocation (loadLatestLocation_resolved (select_latest_location tbl busId) s) = Some d) \<and>
   toasts (loadLatestLocation_resolved data s) = toasts s \<and>
   proximity_checks (loadLatestLocation_resolved data s) = proximity_checks s \<and>
   ((\<forall>row \<in> set tbl. fst row \<noteq> busId) \<longrightarrow>
      loadLatestLocation_resolved (select_latest_location tbl busId) s = s) \<and>
   (channel s = Some cb \<longrightarrow>
      busLocation (push_event p s) = Some p \<and>
      proximity_checks (push_event p s) = proximity_checks s @ [p] \<and>
      toasts (push_event p s) = toasts s @ checkProximityToStops cb p)"
  using select_latest_location_Some[of tbl busId d] push_event_fields[of s cb p]
  by (simp add: subscribeToLocationUpdates_def select_latest_location_None)

theorem eager_fetch_sets_position_only_witness:
  "select_latest_location
     [(''bus1'', \<lparr>latitude = 1, longitude = 10, timestamp = 1\<rparr>),
      (''bus2'', \<lparr>latitude = 9, longitude = 90, timestamp = 9\<rparr>),
      (''bus1'', \<lparr>latitude = 5, longitude = 50, timestamp = 5\<rparr>)] ''bus1'' =
     Some \<lparr>latitude = 5, longitude = 50, timestamp = 5\<rparr> \<and>
   busLocation (loadLatestLocation_resolved
     (select_latest_location
        [(''bus1'', \<lparr>latitude = 1, longitude = 10, timestamp = 1\<rparr>),
         (''bus2'', \<lparr>latitude = 9, longitude = 90, timestamp = 9\<rparr>),
         (''bus1'', \<lparr>latitude = 5, longitude = 50, timestamp = 5\<rparr>)] ''bus1'')
     (fst (mount_effect ''bus1'' TrackBus_init))) =
     Some \<lparr>latitude = 5, longitude = 50, timestamp = 5\<rparr> \<and>
   loadLatestLocation_resolved
     (select_latest_location
        [(''bus1'', \<lparr>latitude = 1, longitude = 10, timestamp = 1\<rparr>),
         (''bus2'', \<lparr>latitude = 9, longitude = 90, timestamp = 9\<rparr>),
         (''bus1'', \<lparr>latitude = 5, longitude = 50, timestamp = 5\<rparr>)] ''bus3'')
     (fst (mount_effect ''bus3'' TrackBus_init)) = fst (mount_effect ''bus3'' TrackBus_init) \<and>
   busLocation (fst (mount_effect ''bus3'' TrackBus_init)) = None \<and>
   channel (fst (mount_effect ''bus3'' TrackBus_init)) = Some [] \<and>
   busLocation (push_event \<lparr>latitude = 2, longitude = 20, timestamp = 2\<rparr>
     (fst (mount_effect ''bus3'' TrackBus_init))) =
     Some \<lparr>latitude = 2, longitude = 20, timestamp = 2\<rparr>"
proof -
  let ?tbl = "[(''bus1'', \<lparr>latitude = 1, longitude = 10, timestamp = 1\<rparr>),
      (''bus2'', \<lparr>latitude = 9, longitude = 90, timestamp = 9\<rparr>),
      (''bus1'', \<lparr>latitude = 5, longitude = 50, timestamp = 5\<rparr>)]"
  let ?d = "\<lparr>latitude = 5, longitude = 50, timestamp = 5\<rparr>"
  let ?p = "\<lparr>latitude = 2, longitude = 20, timestamp = 2\<rparr>"
  have q: "select_latest_location ?tbl ''bus1'' = Some ?d"
    by (simp add: select_latest_location_def sort_key_def)
  have n: "\<forall>row \<in> set ?tbl. fst row \<noteq> ''bus3''" by simp
  have c: "channel (fst (mount_effect ''bus3'' TrackBus_init)) = Some []"
    and b: "busLocation (fst (mount_effect ''bus3'' TrackBus_init)) = None"
    by (simp_all add: mount_effect_init TrackBus_init_def)
  from eager_fetch_sets_position_only[where tbl = ?tbl and busId = "''bus1''" and d = ?d
      and s = "fst (mount_effect ''bus1'' TrackBus_init)"] q
  have 1: "busLocation (loadLatestLocation_resolved (select_latest_location ?tbl ''bus1'')
             (fst (mount_effect ''bus1'' TrackBus_init))) = Some ?d"
    by blast
  from eager_fetch_sets_position_only[where tbl = ?tbl and busId = "''bus3''" and cb = "[]" and p = ?p
      and s = "fst (mount_effect ''bus3'' TrackBus_init)"] n c
  have 2: "loadLatestLocation_resolved (select_latest_location ?tbl ''bus3'')
             (fst (mount_effect ''bus3'' TrackBus_init)) = fst (mount_effect ''bus3'' TrackBus_init)"
    and 3: "busLocation (push_event ?p (fst (mount_effect ''bus3'' TrackBus_init))) = Some ?p"
    by blast+
  from q 1 2 3 b c show ?thesis by blast
qed

text \<open>
  Claim C6 as stated fails: the answer of the eager fetch and a pushed position are not
  handled alike. The pushed position is checked against the stops, the fetched one is
  not.
\<close>

theorem eager_fetch_differs_from_push:
  "proximity_checks
     (loadLatestLocation_resolved (Some \<lparr>latitude = 0, longitude = 0, timestamp = 1\<rparr>)
        (fst (mount_effect ''bus1'' TrackBus_init))) = [] \<and>
   proximity_checks
     (push_event \<lparr>latitude = 0, longitude = 0, timestamp = 1\<rparr>
        (fst (mount_effect ''bus1'' TrackBus_init))) =
     [\<lparr>latitude = 0, longitude = 0, timestamp = 1\<rparr>] \<and>
   toasts
     (loadLatestLocation_resolved (Some \<lparr>latitude = 0, longitude = 0, timestamp = 1\<rparr>)
        (fst (subscribeToLocationUpdates ''bus1''
           (TrackBus_init\<lparr>stops :=
              [\<lparr>latitude = 0, longitude = 0, stop_id = ''a'', name = ''Gate'', stop_order = 1\<rparr>]\<rparr>)))) = [] \<and>
   toasts
     (push_event \<lparr>latitude = 0, longitude = 0, timestamp = 1\<rparr>
        (fst (subscribeToLocationUpdates ''bus1''
           (TrackBus_init\<lparr>stops :=
              [\<lparr>latitude = 0, longitude = 0, stop_id = ''a'', name = ''Gate'', stop_order = 1\<rparr>]\<rparr>)))) =
     [approaching \<lparr>latitude = 0, longitude = 0, stop_id = ''a'', name = ''Gate'', stop_order = 1\<rparr>]"
proof -
  have near: "calculateDistance 0 0 0 0 < PROXIMITY_THRESHOLD"
    by (simp add: calculateDistance_same PROXIMITY_THRESHOLD_def)
  show ?thesis
    using near
    by (simp add: mount_effect_init subscribeToLocationUpdates_def TrackBus_init_def
        push_event_def toasts_on_insert Let_def)
qed

section \<open>Selecting a bus: one assignment, and what a failed write leaves\<close>

lemma handleSelectBus_accepted:
  "handleSelectBus (Some uid) True True busId s =
     loadMyBus uid
       (s\<lparr>requests := requests s @ [Delete_student_buses uid, Insert_student_buses uid busId],
          student_buses := filter (\<lambda>row. fst row \<noteq> uid) (student_buses s) @ [(uid, busId)],
          toasts := toasts s @ [ToastSuccess ''Bus selected successfully'']\<rparr>)"
  by (simp add: handleSelectBus_def delete_student_buses_def insert_student_buses_def Let_def)

lemma loadMyBus_fields [simp]:
  "student_buses (loadMyBus uid s) = student_buses s"
  "toasts (loadMyBus uid s) = toasts s"
  "requests (loadMyBus uid s) = requests s"
  by (simp_all add: loadMyBus_def split: option.splits)

text \<open>
  Claim C8. Two consecutive successful calls of \<^verbatim>\<open>handleSelectBus\<close> (both writes of
  both calls accepted), first for bus b1 and then for bus b2, leave exactly one row of
  the student, for b2, whatever the table held before (also when b1 and b2 are equal);
  the rows of other students are untouched.
\<close>

theorem handleSelectBus_twice_one_assignment:
  "filter (\<lambda>row. fst row = uid)
     (student_buses (handleSelectBus (Some uid) True True b2
        (handleSelectBus (Some uid) True True b1 s))) = [(uid, b2)] \<and>
   filter (\<lambda>row. fst row \<noteq> uid)
     (student_buses (handleSelectBus (Some uid) True True b2
        (handleSelectBus (Some uid) True True b1 s))) =
     filter (\<lambda>row. fst row \<noteq> uid) (student_buses s) \<and>
   toasts (handleSelectBus (Some uid) True True b2
        (handleSelectBus (Some uid) True True b1 s)) =
     toasts s @ [ToastSuccess ''Bus selected successfully'',
                 ToastSuccess ''Bus selected successfully''] \<and>
   myBus (handleSelectBus (Some uid) True True b2
        (handleSelectBus (Some uid) True True b1 s)) = Some b2"
proof -
  have f: "filter (\<lambda>row. fst row = uid) (filter (\<lambda>row. fst row \<noteq> uid) xs) = []" for xs :: "(string \<times> string) list"
    by (induction xs) simp_all
  show ?thesis
    by (simp add: handleSelectBus_accepted f loadMyBus_def)
qed

text \<open>
  Claim C7. When the delete is accepted and the insert fails, the rows of the student
  are gone, the failure notice is shown and each write was sent once. The claim also
  says that a failing delete is surfaced: it is not. For a student assigned to b1 whose
  delete is refused and whose insert of b2 is accepted, the success notice is shown and
  the student holds two rows.
\<close>

theorem handleSelectBus_write_failures:
  "filter (\<lambda>row. fst row = uid)
     (student_buses (handleSelectBus (Some uid) True False busId s)) = [] \<and>
   toasts (handleSelectBus (Some uid) True False busId s) =
     toasts s @ [ToastError ''Failed to select bus''] \<and>
   requests (handleSelectBus (Some uid) True False busId s) =
     requests s @ [Delete_student_buses uid, Insert_student_buses uid busId] \<and>
   handleSelectBus (Some ''s1'') False True ''b2''
     \<lparr>toasts = [], requests = [], student_buses = [(''s1'', ''b1'')], myBus = Some ''b1''\<rparr> =
     \<lparr>toasts = [ToastSuccess ''Bus selected successfully''],
      requests = [Delete_student_buses ''s1'', Insert_student_buses ''s1'' ''b2''],
      student_buses = [(''s1'', ''b1''), (''s1'', ''b2'')], myBus = Some ''b1''\<rparr>"
  by (simp add: handleSelectBus_def delete_student_buses_def insert_student_buses_def Let_def
      loadMyBus_def)

end
